theory Spec2Isabelle
  imports
    Complex_Main
    "HOL-Library.Multiset"
    "HOL-Library.Product_Lexorder"
    "HOL-Library.List_Lexorder"
    "HOL-Library.Char_ord"
begin

section \<open>Calendar values\<close>

text \<open>
  A Python \<^verbatim>\<open>date\<close> is the triple (year, month, day); Python compares dates
  lexicographically on that triple, which is the order of the product type here.
  A \<^verbatim>\<open>datetime\<close> (and an SQL timestamp) is a date with the time elapsed within
  that day, again ordered lexicographically. Amounts and clock readings are Python
  floats in the source; they are modelled as real numbers, so rounding of floating
  point arithmetic is outside this development.
\<close>

type_synonym date = "int \<times> int \<times> int"

type_synonym datetime = "date \<times> nat"

definition year_of :: "date \<Rightarrow> int" where
  "year_of d = fst d"

definition month_of :: "date \<Rightarrow> int" where
  "month_of d = fst (snd d)"

definition day_of :: "date \<Rightarrow> int" where
  "day_of d = snd (snd d)"

definition is_leap :: "int \<Rightarrow> bool" where
  "is_leap y = (y mod 4 = 0 \<and> (y mod 100 \<noteq> 0 \<or> y mod 400 = 0))"

definition days_in_month :: "int \<Rightarrow> int \<Rightarrow> int" where
  "days_in_month y m =
     (if m = 2 then (if is_leap y then 29 else 28)
      else if m = 4 \<or> m = 6 \<or> m = 9 \<or> m = 11 then 30 else 31)"

text \<open>
  The constructor \<^verbatim>\<open>date(year, month, day)\<close>: it raises ValueError (here: \<open>None\<close>)
  unless 1 \<le> year \<le> 9999 (MINYEAR and MAXYEAR of the datetime module),
  1 \<le> month \<le> 12 and the day exists in that month.
\<close>

definition py_date :: "int \<Rightarrow> int \<Rightarrow> int \<Rightarrow> date option" where
  "py_date y m d =
     (if 1 \<le> y \<and> y \<le> 9999 \<and> 1 \<le> m \<and> m \<le> 12 \<and> 1 \<le> d \<and> d \<le> days_in_month y m
      then Some (y, m, d) else None)"

text \<open>An SQL comparison of a timestamp with a date reads the date as its midnight.\<close>

definition midnight :: "date \<Rightarrow> datetime" where
  "midnight d = (d, 0)"

section \<open>The sales table and the aggregate queries (app/routers/metricas.py)\<close>

text \<open>
  The columns of \<^verbatim>\<open>Venda\<close> that the metrics read. Every column is nullable, as in
  SQL: the statements coalesce \<open>total\<close> and \<open>desconto\<close> themselves, and a comparison
  with a NULL \<open>cancelada\<close> or \<open>created_at\<close> is not true, so the row is not selected.
\<close>

record venda =
  total :: "real option"
  desconto :: "real option"
  cancelada :: "bool option"
  created_at :: "datetime option"

definition coalesce :: "'a option \<Rightarrow> 'a \<Rightarrow> 'a" where
  "coalesce x d = (case x of None \<Rightarrow> d | Some v \<Rightarrow> v)"

text \<open>SQL \<^verbatim>\<open>sum\<close> over the selected rows: NULL when no row is selected.\<close>

definition sql_sum :: "real list \<Rightarrow> real option" where
  "sql_sum xs = (if xs = [] then None else Some (sum_list xs))"

text \<open>\<^verbatim>\<open>coalesce(Venda.total, 0.0) - coalesce(Venda.desconto, 0.0)\<close>\<close>

definition liquido :: "venda \<Rightarrow> real" where
  "liquido v = coalesce (total v) 0 - coalesce (desconto v) 0"

text \<open>\<^verbatim>\<open>Venda.cancelada == False, func.date(Venda.created_at) == alvo\<close>\<close>

definition where_dia :: "date \<Rightarrow> venda \<Rightarrow> bool" where
  "where_dia alvo v =
     (cancelada v = Some False \<and>
      (case created_at v of None \<Rightarrow> False | Some t \<Rightarrow> fst t = alvo))"

text \<open>
  \<^verbatim>\<open>Venda.cancelada == False, Venda.created_at >= primeiro_dia,
  Venda.created_at < proximo_mes\<close>
\<close>

definition where_mes :: "date \<Rightarrow> date \<Rightarrow> venda \<Rightarrow> bool" where
  "where_mes primeiro_dia proximo_mes v =
     (cancelada v = Some False \<and>
      (case created_at v of None \<Rightarrow> False
       | Some t \<Rightarrow> midnight primeiro_dia \<le> t \<and> t < midnight proximo_mes))"

text \<open>
  The scalar a statement \<^verbatim>\<open>select(coalesce(sum(...), 0.0)).where(...)\<close> yields on
  the rows of the table.
\<close>

definition scalar_of :: "(venda \<Rightarrow> bool) \<Rightarrow> venda list \<Rightarrow> real option" where
  "scalar_of cond rows = Some (coalesce (sql_sum (map liquido (filter cond rows))) 0)"

text \<open>\<^verbatim>\<open>float(x or 0.0)\<close>: None and zero are falsy.\<close>

definition float_or_zero :: "real option \<Rightarrow> real" where
  "float_or_zero x = (case x of None \<Rightarrow> 0 | Some v \<Rightarrow> if v = 0 then 0 else v)"

section \<open>The metrics cache\<close>

text \<open>
  \<^verbatim>\<open>_metrics_cache\<close> is a dictionary with the two fixed keys "vendas_dia" and
  "vendas_mes"; no key is ever added or removed, so it is a record of two entries.
  An entry is \<^verbatim>\<open>{"value": ..., "ts": ...}\<close>.
\<close>

record cache_entry =
  c_value :: "real option"
  c_ts :: real

record metrics_cache =
  vendas_dia_entry :: cache_entry
  vendas_mes_entry :: cache_entry

definition metrics_cache_init :: metrics_cache where
  "metrics_cache_init =
     \<lparr>vendas_dia_entry = \<lparr>c_value = None, c_ts = 0\<rparr>,
      vendas_mes_entry = \<lparr>c_value = None, c_ts = 0\<rparr>\<rparr>"

definition cache_ttl_seconds :: real where
  "cache_ttl_seconds = 15"

text \<open>
  The freshness test
  \<^verbatim>\<open>entry["value"] is not None and (_now_ts() - entry["ts"]) < _cache_ttl_seconds\<close>:
  the value served, when the test holds.
\<close>

definition cache_fresh :: "cache_entry \<Rightarrow> real \<Rightarrow> real option" where
  "cache_fresh e now =
     (case c_value e of
        None \<Rightarrow> None
      | Some v \<Rightarrow> if now - c_ts e < cache_ttl_seconds then Some v else None)"

section \<open>The environment of one request\<close>

text \<open>
  The library functions the endpoints call on client input are parameters of the
  model: \<^verbatim>\<open>date.fromisoformat\<close> and \<^verbatim>\<open>int\<close> on a string, \<open>None\<close> where they raise.
  Every theorem holds for whatever these functions accept.
\<close>

record pylib =
  fromisoformat :: "string \<Rightarrow> date option"
  py_int :: "string \<Rightarrow> int option"

text \<open>
  What one request observes of the world: the server's clock at the places the code
  reads it, and the database at each attempt (\<open>None\<close>: \<^verbatim>\<open>db.execute\<close>, or the reading
  of its scalar, raises; \<open>Some rows\<close>: the statement runs on these rows of
  \<^verbatim>\<open>vendas\<close>). A request is modelled in isolation: no other request changes the
  cache while this one awaits the database.
\<close>

record world =
  today :: date
  utcnow :: datetime
  now_check :: real
  now_store :: real
  execute :: "nat \<Rightarrow> venda list option"
  utcnow_handler :: datetime

text \<open>
  A JSON response \<^verbatim>\<open>{"data" | "ano_mes": ..., "total": ..., "warning": ...}\<close>. The
  period is kept as the value that the source renders (\<^verbatim>\<open>str(alvo)\<close>,
  \<^verbatim>\<open>strftime("%Y-%m")\<close>); \<open>warning = None\<close> is the absent key.
\<close>

record 'p response =
  period :: 'p
  r_total :: real
  warning :: "string option"

text \<open>
  What a call leaves behind: the body (\<open>None\<close> if the function returned without a
  \<^verbatim>\<open>return\<close> statement), the cache, and the number of \<^verbatim>\<open>db.execute\<close> calls made.
\<close>

record 'p outcome =
  body :: "'p response option"
  cache_after :: metrics_cache
  n_queries :: nat

section \<open>Daily sales\<close>

text \<open>
  \<^verbatim>\<open>try: alvo = date.fromisoformat(data) if data else date.today()
  except Exception: alvo = date.today()\<close>
\<close>

definition alvo_of :: "pylib \<Rightarrow> world \<Rightarrow> string option \<Rightarrow> date" where
  "alvo_of lib w data =
     (case data of
        None \<Rightarrow> today w
      | Some s \<Rightarrow>
          if s = [] then today w
          else (case fromisoformat lib s of Some d \<Rightarrow> d | None \<Rightarrow> today w))"

text \<open>The loop \<^verbatim>\<open>for attempt in range(2)\<close> of \<^verbatim>\<open>vendas_dia\<close>.\<close>

fun attempts_dia :: "world \<Rightarrow> date \<Rightarrow> nat list \<Rightarrow> metrics_cache \<Rightarrow> nat \<Rightarrow> date outcome" where
  "attempts_dia w alvo [] c n = \<lparr>body = None, cache_after = c, n_queries = n\<rparr>"
| "attempts_dia w alvo (attempt # rest) c n =
     (case execute w attempt of
        Some rows \<Rightarrow>
          (let t = float_or_zero (scalar_of (where_dia alvo) rows) in
           \<lparr>body = Some \<lparr>period = alvo, r_total = t, warning = None\<rparr>,
            cache_after = c\<lparr>vendas_dia_entry := \<lparr>c_value = Some t, c_ts = now_store w\<rparr>\<rparr>,
            n_queries = Suc n\<rparr>)
      | None \<Rightarrow>
          if attempt = 0 then attempts_dia w alvo rest c (Suc n)
          else \<lparr>body = Some \<lparr>period = alvo,
                             r_total = float_or_zero (c_value (vendas_dia_entry c)),
                             warning = Some ''cached''\<rparr>,
                cache_after = c, n_queries = Suc n\<rparr>)"

text \<open>The endpoint once the target day is known.\<close>

definition dia_for :: "world \<Rightarrow> date \<Rightarrow> metrics_cache \<Rightarrow> date outcome" where
  "dia_for w alvo c =
     (case cache_fresh (vendas_dia_entry c) (now_check w) of
        Some v \<Rightarrow>
          \<lparr>body = Some \<lparr>period = alvo, r_total = v, warning = None\<rparr>,
           cache_after = c, n_queries = 0\<rparr>
      | None \<Rightarrow> attempts_dia w alvo [0..<2] c 0)"

definition vendas_dia :: "pylib \<Rightarrow> world \<Rightarrow> string option \<Rightarrow> metrics_cache \<Rightarrow> date outcome" where
  "vendas_dia lib w data c = dia_for w (alvo_of lib w data) c"

section \<open>Monthly sales\<close>

text \<open>\<^verbatim>\<open>ano_mes.split("-")\<close>: the pieces between the separators, left to right.\<close>

fun split_on :: "char \<Rightarrow> string \<Rightarrow> string \<Rightarrow> string list" where
  "split_on sep cur [] = [rev cur]"
| "split_on sep cur (x # xs) =
     (if x = sep then rev cur # split_on sep [] xs else split_on sep (x # cur) xs)"

text \<open>
  \<^verbatim>\<open>ano, mes = map(int, ano_mes.split("-")); primeiro_dia = date(ano, mes, 1)\<close>:
  \<open>None\<close> when the unpacking, an \<^verbatim>\<open>int\<close> or the constructor raises.
\<close>

definition parse_ano_mes :: "pylib \<Rightarrow> string \<Rightarrow> date option" where
  "parse_ano_mes lib s =
     (case split_on (CHR ''-'') [] s of
        [a, m] \<Rightarrow>
          (case py_int lib a of
             None \<Rightarrow> None
           | Some ano \<Rightarrow>
               (case py_int lib m of None \<Rightarrow> None | Some mes \<Rightarrow> py_date ano mes 1))
      | _ \<Rightarrow> None)"

text \<open>\<^verbatim>\<open>date(dnow.year, dnow.month, 1)\<close> for a reading \<open>dnow\<close> of the clock.\<close>

definition first_of_month :: "datetime \<Rightarrow> date" where
  "first_of_month dnow = (year_of (fst dnow), month_of (fst dnow), 1)"

definition primeiro_dia_of :: "pylib \<Rightarrow> world \<Rightarrow> string option \<Rightarrow> date" where
  "primeiro_dia_of lib w ano_mes =
     (case ano_mes of
        None \<Rightarrow> first_of_month (utcnow w)
      | Some s \<Rightarrow>
          if s = [] then first_of_month (utcnow w)
          else (case parse_ano_mes lib s of
                  Some d \<Rightarrow> d
                | None \<Rightarrow> first_of_month (utcnow w)))"

text \<open>
  \<^verbatim>\<open>date(primeiro_dia.year + (1 if primeiro_dia.month == 12 else 0),
  1 if primeiro_dia.month == 12 else primeiro_dia.month + 1, 1)\<close>
\<close>

definition proximo_mes_of :: "date \<Rightarrow> date option" where
  "proximo_mes_of primeiro_dia =
     py_date (year_of primeiro_dia + (if month_of primeiro_dia = 12 then 1 else 0))
             (if month_of primeiro_dia = 12 then 1 else month_of primeiro_dia + 1)
             1"

text \<open>\<^verbatim>\<open>strftime("%Y-%m")\<close>: the year and the month of a date.\<close>

definition year_month :: "date \<Rightarrow> int \<times> int" where
  "year_month d = (year_of d, month_of d)"

text \<open>The loop \<^verbatim>\<open>for attempt in range(2)\<close> of \<^verbatim>\<open>vendas_mes\<close>.\<close>

fun attempts_mes ::
  "world \<Rightarrow> date \<Rightarrow> date \<Rightarrow> nat list \<Rightarrow> metrics_cache \<Rightarrow> nat \<Rightarrow> (int \<times> int) outcome" where
  "attempts_mes w primeiro_dia proximo_mes [] c n =
     \<lparr>body = None, cache_after = c, n_queries = n\<rparr>"
| "attempts_mes w primeiro_dia proximo_mes (attempt # rest) c n =
     (case execute w attempt of
        Some rows \<Rightarrow>
          (let t = float_or_zero (scalar_of (where_mes primeiro_dia proximo_mes) rows) in
           \<lparr>body = Some \<lparr>period = year_month primeiro_dia, r_total = t, warning = None\<rparr>,
            cache_after = c\<lparr>vendas_mes_entry := \<lparr>c_value = Some t, c_ts = now_store w\<rparr>\<rparr>,
            n_queries = Suc n\<rparr>)
      | None \<Rightarrow>
          if attempt = 0 then attempts_mes w primeiro_dia proximo_mes rest c (Suc n)
          else \<lparr>body = Some \<lparr>period = year_month primeiro_dia,
                             r_total = float_or_zero (c_value (vendas_mes_entry c)),
                             warning = Some ''cached''\<rparr>,
                cache_after = c, n_queries = Suc n\<rparr>)"

text \<open>
  The interval of the statement that \<^verbatim>\<open>vendas_mes\<close> builds: \<open>None\<close> when the
  construction of \<open>proximo_mes\<close> raises, so that no statement exists.
\<close>

definition interval_mes :: "pylib \<Rightarrow> world \<Rightarrow> string option \<Rightarrow> (date \<times> date) option" where
  "interval_mes lib w ano_mes =
     (let primeiro_dia = primeiro_dia_of lib w ano_mes in
      case proximo_mes_of primeiro_dia of
        None \<Rightarrow> None
      | Some proximo_mes \<Rightarrow> Some (primeiro_dia, proximo_mes))"

text \<open>
  The endpoint. The whole body stands in a \<^verbatim>\<open>try\<close> whose handler
  (\<^verbatim>\<open>except Exception\<close>, "Falha inesperada: retornar cache ou zero") answers with the
  cached value, the month of the clock and the warning.
\<close>

definition vendas_mes ::
  "pylib \<Rightarrow> world \<Rightarrow> string option \<Rightarrow> metrics_cache \<Rightarrow> (int \<times> int) outcome" where
  "vendas_mes lib w ano_mes c =
     (case interval_mes lib w ano_mes of
        None \<Rightarrow>
          \<lparr>body = Some \<lparr>period = year_month (fst (utcnow_handler w)),
                        r_total = float_or_zero (c_value (vendas_mes_entry c)),
                        warning = Some ''cached''\<rparr>,
           cache_after = c, n_queries = 0\<rparr>
      | Some (primeiro_dia, proximo_mes) \<Rightarrow>
          (case cache_fresh (vendas_mes_entry c) (now_check w) of
             Some v \<Rightarrow>
               \<lparr>body = Some \<lparr>period = year_month primeiro_dia, r_total = v, warning = None\<rparr>,
                cache_after = c, n_queries = 0\<rparr>
           | None \<Rightarrow> attempts_mes w primeiro_dia proximo_mes [0..<2] c 0))"

section \<open>Sample environments\<close>

text \<open>
  The library on the strings that the examples use: what Python's
  \<^verbatim>\<open>date.fromisoformat\<close> and \<^verbatim>\<open>int\<close> return on them. The examples evaluate it on
  these strings and on "10/03/2025", which \<^verbatim>\<open>date.fromisoformat\<close> rejects.
\<close>

definition lib_sample :: pylib where
  "lib_sample =
     \<lparr>fromisoformat = (\<lambda>s. if s = ''2025-03-10'' then Some (2025, 3, 10)
                            else if s = ''2025-03-11'' then Some (2025, 3, 11)
                            else if s = ''2025-03-12'' then Some (2025, 3, 12)
                            else None),
      py_int = (\<lambda>s. if s = ''2024'' then Some 2024
                     else if s = ''2025'' then Some 2025
                     else if s = ''9999'' then Some 9999
                     else if s = ''12'' then Some 12
                     else if s = ''13'' then Some 13
                     else if s = ''03'' then Some 3
                     else None)\<rparr>"

definition sale :: "real \<Rightarrow> real \<Rightarrow> bool \<Rightarrow> datetime \<Rightarrow> venda" where
  "sale t d canc stamp =
     \<lparr>total = Some t, desconto = Some d, cancelada = Some canc, created_at = Some stamp\<rparr>"

definition rows_sample :: "venda list" where
  "rows_sample =
     [sale 1000 50 False ((2025, 3, 10), 3600),
      sale 200 0 True ((2025, 3, 10), 7200),
      sale 80 5 False ((2025, 3, 11), 0),
      sale 40 0 False ((2024, 12, 31), 86399),
      sale 70 0 False ((2025, 1, 1), 0)]"

text \<open>
  A world whose database answers every attempt, one whose database fails every
  attempt, and a later moment of the first.
\<close>

definition world_ok :: world where
  "world_ok =
     \<lparr>today = (2025, 3, 11), utcnow = ((2025, 3, 11), 100), now_check = 1000,
      now_store = 1001, execute = (\<lambda>i. Some rows_sample),
      utcnow_handler = ((2025, 3, 11), 101)\<rparr>"

definition world_down :: world where
  "world_down = world_ok\<lparr>execute := (\<lambda>i. None)\<rparr>"

definition world_later :: world where
  "world_later = world_ok\<lparr>now_check := 1010, now_store := 1011\<rparr>"

definition cache_sample :: metrics_cache where
  "cache_sample =
     \<lparr>vendas_dia_entry = \<lparr>c_value = Some 950, c_ts = 990\<rparr>,
      vendas_mes_entry = \<lparr>c_value = Some 1025, c_ts = 990\<rparr>\<rparr>"

definition cache_stale :: metrics_cache where
  "cache_stale =
     \<lparr>vendas_dia_entry = \<lparr>c_value = Some 950, c_ts = 100\<rparr>,
      vendas_mes_entry = \<lparr>c_value = Some 1025, c_ts = 100\<rparr>\<rparr>"

section \<open>The aggregates in the words of the specification\<close>

text \<open>
  The sales a daily total is about: the sales whose cancelled flag is false and whose
  \<open>created_at\<close> falls on the day. The net amount of a sale is its total minus its
  discount, an absent amount counting as zero.
\<close>

definition sales_of_day :: "date \<Rightarrow> venda list \<Rightarrow> venda list" where
  "sales_of_day day rows =
     filter (\<lambda>v. cancelada v = Some False \<and> map_option fst (created_at v) = Some day) rows"

definition net_amount :: "venda \<Rightarrow> real" where
  "net_amount v =
     (case total v of None \<Rightarrow> 0 | Some t \<Rightarrow> t) - (case desconto v of None \<Rightarrow> 0 | Some d \<Rightarrow> d)"

definition daily_sales_total :: "date \<Rightarrow> venda list \<Rightarrow> real" where
  "daily_sales_total day rows = sum_list (map net_amount (sales_of_day day rows))"

text \<open>
  The first day of the month after the month of a date: January of the next year
  after a December. The sales a monthly total is about: the sales whose cancelled
  flag is false and whose \<open>created_at\<close> date lies in the half-open interval from
  \<open>lo\<close> (included) to \<open>hi\<close> (excluded).
\<close>

definition first_of_next_month :: "date \<Rightarrow> date" where
  "first_of_next_month d =
     (if month_of d = 12 then (year_of d + 1, 1, 1) else (year_of d, month_of d + 1, 1))"

definition sales_of_interval :: "date \<Rightarrow> date \<Rightarrow> venda list \<Rightarrow> venda list" where
  "sales_of_interval lo hi rows =
     filter (\<lambda>v. cancelada v = Some False \<and>
                 (case created_at v of None \<Rightarrow> False | Some t \<Rightarrow> lo \<le> fst t \<and> fst t < hi))
            rows"

definition interval_sales_total :: "date \<Rightarrow> date \<Rightarrow> venda list \<Rightarrow> real" where
  "interval_sales_total lo hi rows = sum_list (map net_amount (sales_of_interval lo hi rows))"


section \<open>The life of the cache\<close>

text \<open>
  The cache lives as long as the process: it starts as \<open>metrics_cache_init\<close> and is
  changed only by the two endpoints. A process serves a sequence of requests, each
  with its own view of the world.
\<close>

datatype request = Dia world "string option" | Mes world "string option"

fun serve :: "pylib \<Rightarrow> request \<Rightarrow> metrics_cache \<Rightarrow> metrics_cache" where
  "serve lib (Dia w data) c = cache_after (vendas_dia lib w data c)"
| "serve lib (Mes w ano_mes) c = cache_after (vendas_mes lib w ano_mes c)"

definition run :: "pylib \<Rightarrow> request list \<Rightarrow> metrics_cache \<Rightarrow> metrics_cache" where
  "run lib rs c = fold (serve lib) rs c"

text \<open>
  A request whose aggregate computation succeeds once the cache does not serve it:
  the database answers the first attempt or the retry (and, for a month, the
  statement can be built).
\<close>

fun dia_answered :: "request \<Rightarrow> bool" where
  "dia_answered (Dia w data) = (execute w 0 \<noteq> None \<or> execute w 1 \<noteq> None)"
| "dia_answered (Mes w ano_mes) = False"

fun mes_answered :: "pylib \<Rightarrow> request \<Rightarrow> bool" where
  "mes_answered lib (Dia w data) = False"
| "mes_answered lib (Mes w ano_mes) =
     (interval_mes lib w ano_mes \<noteq> None \<and> (execute w 0 \<noteq> None \<or> execute w 1 \<noteq> None))"

section \<open>Duplicate sales (scripts/cleanup_duplicate_vendas.py)\<close>

text \<open>
  The dictionaries that \<^verbatim>\<open>fetch_vendas_and_itens\<close> builds and that
  \<^verbatim>\<open>build_signature\<close> and \<^verbatim>\<open>choose_to_keep\<close> read with \<^verbatim>\<open>.get\<close>: a key may be
  absent or hold \<^verbatim>\<open>None\<close> (here: \<open>None\<close>). \<open>usuario_id\<close> is the text of a UUID
  column (\<^verbatim>\<open>v.usuario_id::text\<close>) or NULL.
\<close>

record item =
  produto_id :: "string option"
  quantidade :: "int option"
  peso_kg :: "real option"
  preco_unitario :: "real option"
  subtotal :: "real option"

text \<open>
  A Python \<^verbatim>\<open>datetime\<close> is naive or offset-aware. The driver returns the
  \<open>created_at\<close> of a row as one or the other, by the type of the column;
  \<^verbatim>\<open>datetime.now(timezone.utc)\<close> is offset-aware. An aware value is kept as its
  instant in UTC.
\<close>

datatype pydatetime = Naive datetime | Aware datetime



record venda_dict =
  vd_id :: string
  vd_usuario_id :: "string option"
  vd_total :: "real option"
  vd_forma_pagamento :: "string option"
  vd_created_at :: "pydatetime option"
  vd_itens :: "item list option"

text \<open>
  \<^verbatim>\<open>round(x, 6)\<close> on the reals: to the nearest multiple of one millionth, a tie going
  to the even one.
\<close>

definition round_half_even :: "real \<Rightarrow> int" where
  "round_half_even y =
     (let f = \<lfloor>y\<rfloor>; r = y - of_int f in
      if r < 1 / 2 then f else if 1 / 2 < r then f + 1 else if even f then f else f + 1)"

definition round6 :: "real \<Rightarrow> real" where
  "round6 x = of_int (round_half_even (x * 1000000)) / 1000000"

text \<open>\<^verbatim>\<open>x or 0\<close>, \<^verbatim>\<open>x or ""\<close>, \<^verbatim>\<open>x or []\<close>: the default for None and for a falsy value.\<close>

definition or_zero :: "real option \<Rightarrow> real" where
  "or_zero x = (case x of None \<Rightarrow> 0 | Some v \<Rightarrow> if v = 0 then 0 else v)"

definition or_zero_int :: "int option \<Rightarrow> int" where
  "or_zero_int x = (case x of None \<Rightarrow> 0 | Some v \<Rightarrow> if v = 0 then 0 else v)"

definition or_empty :: "'a list option \<Rightarrow> 'a list" where
  "or_empty x = (case x of None \<Rightarrow> [] | Some v \<Rightarrow> if v = [] then [] else v)"

type_synonym key_item = "string \<times> int \<times> real \<times> real \<times> real"

type_synonym signature = "real \<times> string \<times> key_item list"

text \<open>The tuple appended to \<^verbatim>\<open>key_items\<close> for one line item.\<close>

definition key_item_of :: "item \<Rightarrow> key_item" where
  "key_item_of it =
     (or_empty (produto_id it), or_zero_int (quantidade it), round6 (or_zero (peso_kg it)),
      round6 (or_zero (preco_unitario it)), round6 (or_zero (subtotal it)))"

text \<open>
  \<^verbatim>\<open>build_signature\<close>: the loop appends the tuple of each item in turn,
  \<^verbatim>\<open>key_items.sort()\<close> sorts the tuples (Python orders tuples lexicographically, and
  strings by code point).
\<close>

definition build_signature :: "venda_dict \<Rightarrow> signature" where
  "build_signature v =
     (round6 (or_zero (vd_total v)), or_empty (vd_forma_pagamento v),
      sort (map key_item_of (or_empty (vd_itens v))))"











text \<open>Sample sales.\<close>

definition item_a :: item where
  "item_a = \<lparr>produto_id = Some ''p-1'', quantidade = Some 2, peso_kg = Some 0,
             preco_unitario = Some 10.5, subtotal = Some 21\<rparr>"

definition item_b :: item where
  "item_b = \<lparr>produto_id = Some ''p-2'', quantidade = Some 1, peso_kg = Some 0.25,
             preco_unitario = Some 40, subtotal = Some 10\<rparr>"

definition venda_x :: venda_dict where
  "venda_x = \<lparr>vd_id = ''v-1'', vd_usuario_id = None, vd_total = Some 31,
              vd_forma_pagamento = Some ''Dinheiro'',
              vd_created_at = Some (Naive ((2025, 1, 1), 0)),
              vd_itens = Some [item_a, item_b]\<rparr>"




section \<open>Expenses (app/routers/despesas.py)\<close>


































section \<open>Helper facts\<close>

lemma range_two: "[0..<2] = [0, Suc 0]"
  by (simp add: upt_rec)

lemma float_or_zero_None: "float_or_zero None = 0"
  by (simp add: float_or_zero_def)

lemma world_ok_sel:
  "today world_ok = (2025, 3, 11)" "utcnow world_ok = ((2025, 3, 11), 100)"
  "now_check world_ok = 1000" "now_store world_ok = 1001"
  "execute world_ok i = Some rows_sample" "utcnow_handler world_ok = ((2025, 3, 11), 101)"
  by (simp_all add: world_ok_def)

lemma world_down_sel:
  "today world_down = (2025, 3, 11)" "utcnow world_down = ((2025, 3, 11), 100)"
  "now_check world_down = 1000" "now_store world_down = 1001"
  "execute world_down i = None" "utcnow_handler world_down = ((2025, 3, 11), 101)"
  by (simp_all add: world_down_def world_ok_def)

lemma cache_sample_sel:
  "vendas_dia_entry cache_sample = \<lparr>c_value = Some 950, c_ts = 990\<rparr>"
  "vendas_mes_entry cache_sample = \<lparr>c_value = Some 1025, c_ts = 990\<rparr>"
  by (simp_all add: cache_sample_def)

lemma cache_stale_sel:
  "vendas_dia_entry cache_stale = \<lparr>c_value = Some 950, c_ts = 100\<rparr>"
  "vendas_mes_entry cache_stale = \<lparr>c_value = Some 1025, c_ts = 100\<rparr>"
  by (simp_all add: cache_stale_def)

lemma alvo_sample: "alvo_of lib_sample w (Some ''2025-03-10'') = (2025, 3, 10)"
  by (simp add: alvo_of_def lib_sample_def)

lemma parse_sample_march: "parse_ano_mes lib_sample ''2025-03'' = Some (2025, 3, 1)"
  by (simp add: parse_ano_mes_def lib_sample_def py_date_def days_in_month_def)

lemma interval_sample:
  "interval_mes lib_sample w (Some ''2025-03'') = Some ((2025, 3, 1), (2025, 4, 1))"
  by (simp add: interval_mes_def primeiro_dia_of_def parse_sample_march py_date_def
      days_in_month_def proximo_mes_of_def year_of_def month_of_def)

section \<open>Cache hits\<close>

text \<open>
  C2. A daily-sales call made while the entry of the daily key is non-empty and
  younger than the 15 second TTL returns the cached value as its total (under the
  requested day, without a warning), executes no query and leaves the cache as it
  is. A monthly-sales call made while the entry of the monthly key is non-empty
  and younger than the TTL likewise returns the cached value as its total,
  executes no query and leaves the cache as it is.
\<close>

theorem cache_hit_no_query:
  "(c_value (vendas_dia_entry c) = Some v \<and> now_check w - c_ts (vendas_dia_entry c) < 15 \<longrightarrow>
      body (vendas_dia lib w data c)
        = Some \<lparr>period = alvo_of lib w data, r_total = v, warning = None\<rparr> \<and>
      n_queries (vendas_dia lib w data c) = 0 \<and>
      cache_after (vendas_dia lib w data c) = c) \<and>
   (c_value (vendas_mes_entry c) = Some u \<and> now_check w - c_ts (vendas_mes_entry c) < 15 \<longrightarrow>
      map_option r_total (body (vendas_mes lib w ano_mes c)) = Some u \<and>
      n_queries (vendas_mes lib w ano_mes c) = 0 \<and>
      cache_after (vendas_mes lib w ano_mes c) = c)"
  by (simp add: vendas_dia_def vendas_mes_def dia_for_def cache_fresh_def cache_ttl_seconds_def
      float_or_zero_def split: option.splits prod.splits)

theorem cache_hit_no_query_witness:
  "c_value (vendas_dia_entry cache_sample) = Some 950 \<and>
   now_check world_ok - c_ts (vendas_dia_entry cache_sample) < 15 \<and>
   body (vendas_dia lib_sample world_ok (Some ''2025-03-10'') cache_sample)
     = Some \<lparr>period = (2025, 3, 10), r_total = 950, warning = None\<rparr> \<and>
   n_queries (vendas_dia lib_sample world_ok (Some ''2025-03-10'') cache_sample) = 0 \<and>
   c_value (vendas_mes_entry cache_sample) = Some 1025 \<and>
   now_check world_ok - c_ts (vendas_mes_entry cache_sample) < 15 \<and>
   map_option r_total (body (vendas_mes lib_sample world_ok (Some ''2025-03'') cache_sample))
     = Some 1025 \<and>
   n_queries (vendas_mes lib_sample world_ok (Some ''2025-03'') cache_sample) = 0"
proof -
  have h1: "c_value (vendas_dia_entry cache_sample) = Some 950 \<and>
      now_check world_ok - c_ts (vendas_dia_entry cache_sample) < 15"
    by (simp add: cache_sample_sel world_ok_sel)
  have h2: "c_value (vendas_mes_entry cache_sample) = Some 1025 \<and>
      now_check world_ok - c_ts (vendas_mes_entry cache_sample) < 15"
    by (simp add: cache_sample_sel world_ok_sel)
  note r1 = cache_hit_no_query [THEN conjunct1, rule_format, OF h1]
  note r2 = cache_hit_no_query [THEN conjunct2, rule_format, OF h2]
  show ?thesis
    using h1 h2 r1 [of lib_sample "Some ''2025-03-10''"] r2 [of lib_sample "Some ''2025-03''"]
    by (simp add: alvo_sample)
qed

section \<open>Degraded answers\<close>

lemma scalar_total: "float_or_zero (scalar_of cond rows) = sum_list (map liquido (filter cond rows))"
  by (simp add: scalar_of_def float_or_zero_def sql_sum_def coalesce_def)

lemma where_dia_iff:
  "where_dia day v \<longleftrightarrow> cancelada v = Some False \<and> map_option fst (created_at v) = Some day"
  by (cases "created_at v") (auto simp: where_dia_def)

lemma liquido_net: "liquido = net_amount"
  by (rule ext) (simp add: liquido_def net_amount_def coalesce_def)

lemma scalar_dia: "float_or_zero (scalar_of (where_dia day) rows) = daily_sales_total day rows"
proof -
  have "where_dia day = (\<lambda>v. cancelada v = Some False \<and> map_option fst (created_at v) = Some day)"
    by (rule ext) (rule where_dia_iff)
  then show ?thesis
    by (simp add: scalar_total daily_sales_total_def sales_of_day_def liquido_net)
qed

lemma attempts_dia_first:
  "execute w 0 = Some rows \<Longrightarrow>
   attempts_dia w alvo [0..<2] c 0 =
     \<lparr>body = Some \<lparr>period = alvo, r_total = daily_sales_total alvo rows, warning = None\<rparr>,
      cache_after = c\<lparr>vendas_dia_entry := \<lparr>c_value = Some (daily_sales_total alvo rows),
                                            c_ts = now_store w\<rparr>\<rparr>,
      n_queries = 1\<rparr>"
  by (simp add: range_two scalar_dia Let_def)

lemma attempts_dia_second:
  "execute w 0 = None \<Longrightarrow> execute w (Suc 0) = Some rows \<Longrightarrow>
   attempts_dia w alvo [0..<2] c 0 =
     \<lparr>body = Some \<lparr>period = alvo, r_total = daily_sales_total alvo rows, warning = None\<rparr>,
      cache_after = c\<lparr>vendas_dia_entry := \<lparr>c_value = Some (daily_sales_total alvo rows),
                                            c_ts = now_store w\<rparr>\<rparr>,
      n_queries = 2\<rparr>"
  by (simp add: range_two scalar_dia Let_def)

text \<open>
  C1. When the cache does not serve the request and both the first attempt and the
  retry of the query fail, the daily endpoint returns a body (no exception, no
  empty answer) with the value in the cache entry of the daily key, or 0 if the
  entry holds none, and the warning "cached", after two attempts and without
  touching the cache. The monthly endpoint does the same with the entry of the
  monthly key.
\<close>

theorem both_attempts_fail_cached:
  "(cache_fresh (vendas_dia_entry c) (now_check w) = None \<and>
    execute w 0 = None \<and> execute w 1 = None \<longrightarrow>
      vendas_dia lib w data c =
        \<lparr>body = Some \<lparr>period = alvo_of lib w data,
                      r_total = (case c_value (vendas_dia_entry c) of None \<Rightarrow> 0 | Some v \<Rightarrow> v),
                      warning = Some ''cached''\<rparr>,
         cache_after = c, n_queries = 2\<rparr>) \<and>
   (cache_fresh (vendas_mes_entry c) (now_check w) = None \<and>
    execute w 0 = None \<and> execute w 1 = None \<longrightarrow>
      map_option r_total (body (vendas_mes lib w ano_mes c))
        = Some (case c_value (vendas_mes_entry c) of None \<Rightarrow> 0 | Some v \<Rightarrow> v) \<and>
      map_option warning (body (vendas_mes lib w ano_mes c)) = Some (Some ''cached'') \<and>
      cache_after (vendas_mes lib w ano_mes c) = c)"
  by (simp add: vendas_dia_def vendas_mes_def dia_for_def range_two float_or_zero_def
      split: option.splits prod.splits)

theorem both_attempts_fail_cached_witness:
  "cache_fresh (vendas_dia_entry cache_stale) (now_check world_down) = None \<and>
   execute world_down 0 = None \<and> execute world_down 1 = None \<and>
   vendas_dia lib_sample world_down (Some ''2025-03-10'') cache_stale =
     \<lparr>body = Some \<lparr>period = (2025, 3, 10), r_total = 950, warning = Some ''cached''\<rparr>,
      cache_after = cache_stale, n_queries = 2\<rparr> \<and>
   cache_fresh (vendas_mes_entry metrics_cache_init) (now_check world_down) = None \<and>
   map_option r_total (body (vendas_mes lib_sample world_down (Some ''2025-03'') metrics_cache_init))
     = Some 0 \<and>
   map_option warning (body (vendas_mes lib_sample world_down (Some ''2025-03'') metrics_cache_init))
     = Some (Some ''cached'')"
proof -
  have h1: "cache_fresh (vendas_dia_entry cache_stale) (now_check world_down) = None \<and>
      execute world_down 0 = None \<and> execute world_down 1 = None"
    by (simp add: cache_fresh_def cache_ttl_seconds_def cache_stale_sel world_down_sel)
  have h2: "cache_fresh (vendas_mes_entry metrics_cache_init) (now_check world_down) = None \<and>
      execute world_down 0 = None \<and> execute world_down 1 = None"
    by (simp add: cache_fresh_def metrics_cache_init_def world_down_sel)
  note r1 = both_attempts_fail_cached [THEN conjunct1, rule_format, OF h1]
  note r2 = both_attempts_fail_cached [THEN conjunct2, rule_format, OF h2]
  have v: "c_value (vendas_mes_entry metrics_cache_init) = None"
    by (simp add: metrics_cache_init_def)
  show ?thesis
    using h1 h2 r1 [of lib_sample "Some ''2025-03-10''"] r2 [of lib_sample "Some ''2025-03''"]
    by (simp add: alvo_sample cache_stale_sel v)
qed

section \<open>Fresh daily totals\<close>

lemma dia_for_miss:
  "cache_fresh (vendas_dia_entry c) (now_check w) = None \<Longrightarrow>
   dia_for w alvo c = attempts_dia w alvo [0..<2] c 0"
  by (simp add: dia_for_def)

text \<open>
  C4. For every target day, when the cache does not serve the request and a query
  succeeds (at the first attempt, or at the retry after a failed first attempt), the
  daily endpoint returns as total the sum of (total - discount) over exactly the
  rows whose cancelled flag is false and whose \<open>created_at\<close> date is the target
  day; when there is no such row the total is the number 0 (the total of a body is
  a number by type, never null, and the body itself is present).
\<close>

theorem daily_total_is_net_sum:
  "cache_fresh (vendas_dia_entry c) (now_check w) = None \<and>
   (execute w 0 = Some rows \<or> execute w 0 = None \<and> execute w 1 = Some rows) \<longrightarrow>
     body (vendas_dia lib w data c)
       = Some \<lparr>period = alvo_of lib w data,
               r_total = daily_sales_total (alvo_of lib w data) rows,
               warning = None\<rparr> \<and>
     (sales_of_day (alvo_of lib w data) rows = [] \<longrightarrow>
        body (vendas_dia lib w data c)
          = Some \<lparr>period = alvo_of lib w data, r_total = 0, warning = None\<rparr>)"
proof (intro impI, elim conjE)
  assume miss: "cache_fresh (vendas_dia_entry c) (now_check w) = None"
    and ok: "execute w 0 = Some rows \<or> execute w 0 = None \<and> execute w 1 = Some rows"
  have "body (attempts_dia w (alvo_of lib w data) [0..<2] c 0)
      = Some \<lparr>period = alvo_of lib w data,
              r_total = daily_sales_total (alvo_of lib w data) rows, warning = None\<rparr>"
    using ok by (auto simp: attempts_dia_first attempts_dia_second)
  then have b: "body (vendas_dia lib w data c)
      = Some \<lparr>period = alvo_of lib w data,
              r_total = daily_sales_total (alvo_of lib w data) rows, warning = None\<rparr>"
    by (simp add: vendas_dia_def dia_for_miss [OF miss])
  show "body (vendas_dia lib w data c)
       = Some \<lparr>period = alvo_of lib w data,
               r_total = daily_sales_total (alvo_of lib w data) rows,
               warning = None\<rparr> \<and>
     (sales_of_day (alvo_of lib w data) rows = [] \<longrightarrow>
        body (vendas_dia lib w data c)
          = Some \<lparr>period = alvo_of lib w data, r_total = 0, warning = None\<rparr>)"
    using b by (simp add: daily_sales_total_def)
qed

lemma sales_of_day_sample_10:
  "sales_of_day (2025, 3, 10) rows_sample = [sale 1000 50 False ((2025, 3, 10), 3600)]"
  by (simp add: sales_of_day_def rows_sample_def sale_def)

lemma sales_of_day_sample_12: "sales_of_day (2025, 3, 12) rows_sample = []"
  by (simp add: sales_of_day_def rows_sample_def sale_def)

lemma daily_total_sample_10: "daily_sales_total (2025, 3, 10) rows_sample = 950"
  by (simp add: daily_sales_total_def sales_of_day_sample_10) (simp add: net_amount_def sale_def)

lemma alvo_sample_12: "alvo_of lib_sample w (Some ''2025-03-12'') = (2025, 3, 12)"
  by (simp add: alvo_of_def lib_sample_def)

theorem daily_total_is_net_sum_witness:
  "cache_fresh (vendas_dia_entry metrics_cache_init) (now_check world_ok) = None \<and>
   execute world_ok 0 = Some rows_sample \<and>
   body (vendas_dia lib_sample world_ok (Some ''2025-03-10'') metrics_cache_init)
     = Some \<lparr>period = (2025, 3, 10), r_total = 950, warning = None\<rparr> \<and>
   sales_of_day (2025, 3, 12) rows_sample = [] \<and>
   body (vendas_dia lib_sample world_ok (Some ''2025-03-12'') metrics_cache_init)
     = Some \<lparr>period = (2025, 3, 12), r_total = 0, warning = None\<rparr>"
proof -
  have h: "cache_fresh (vendas_dia_entry metrics_cache_init) (now_check world_ok) = None \<and>
      (execute world_ok 0 = Some rows_sample \<or>
       execute world_ok 0 = None \<and> execute world_ok 1 = Some rows_sample)"
    by (simp add: cache_fresh_def metrics_cache_init_def world_ok_sel)
  note r = daily_total_is_net_sum [rule_format, OF h]
  have e: "sales_of_day (alvo_of lib_sample world_ok (Some ''2025-03-12'')) rows_sample = []"
    by (simp add: alvo_sample_12 sales_of_day_sample_12)
  note r1 = r [of lib_sample "Some ''2025-03-10''", THEN conjunct1]
  note r2 = r [of lib_sample "Some ''2025-03-12''", THEN conjunct2, rule_format, OF e]
  show ?thesis
    using h r1 r2
    by (simp add: alvo_sample alvo_sample_12 daily_total_sample_10 sales_of_day_sample_12
        world_ok_sel)
qed

section \<open>The interval of the monthly statement\<close>

lemma py_date_first:
  "py_date y m 1 = (if 1 \<le> y \<and> y \<le> 9999 \<and> 1 \<le> m \<and> m \<le> 12 then Some (y, m, 1) else None)"
  by (auto simp: py_date_def days_in_month_def)

lemma parse_ano_mes_Nil: "parse_ano_mes lib [] = None"
  by (simp add: parse_ano_mes_def)

lemma parse_ano_mes_Some:
  assumes "parse_ano_mes lib s = Some d"
  shows "\<exists>y m. d = (y, m, 1) \<and> 1 \<le> y \<and> y \<le> 9999 \<and> 1 \<le> m \<and> m \<le> 12"
  using assms
  by (auto simp: parse_ano_mes_def py_date_first split: list.splits option.splits if_splits)

lemma proximo_mes_of_Some:
  assumes "1 \<le> y" "y \<le> 9999" "1 \<le> m" "m \<le> 12" "\<not> (y = 9999 \<and> m = 12)"
  shows "proximo_mes_of (y, m, 1) = Some (first_of_next_month (y, m, 1))"
  using assms
  by (auto simp: proximo_mes_of_def first_of_next_month_def py_date_first year_of_def month_of_def)

lemma midnight_le: "midnight lo \<le> t \<longleftrightarrow> lo \<le> fst t"
  by (cases t) (auto simp: midnight_def)

lemma less_midnight: "t < midnight hi \<longleftrightarrow> fst t < hi"
  by (cases t) (auto simp: midnight_def)

lemma where_mes_eq:
  "where_mes lo hi =
     (\<lambda>v. cancelada v = Some False \<and>
          (case created_at v of None \<Rightarrow> False | Some t \<Rightarrow> lo \<le> fst t \<and> fst t < hi))"
  by (rule ext) (simp add: where_mes_def midnight_le less_midnight split: option.splits)

lemma scalar_mes:
  "float_or_zero (scalar_of (where_mes lo hi) rows) = interval_sales_total lo hi rows"
  by (simp add: scalar_total where_mes_eq interval_sales_total_def sales_of_interval_def
      liquido_net)

lemma attempts_mes_first:
  "execute w 0 = Some rows \<Longrightarrow>
   attempts_mes w lo hi [0..<2] c 0 =
     \<lparr>body = Some \<lparr>period = year_month lo, r_total = interval_sales_total lo hi rows,
                   warning = None\<rparr>,
      cache_after = c\<lparr>vendas_mes_entry := \<lparr>c_value = Some (interval_sales_total lo hi rows),
                                            c_ts = now_store w\<rparr>\<rparr>,
      n_queries = 1\<rparr>"
  by (simp add: range_two scalar_mes Let_def)

lemma interval_mes_parsed:
  assumes "parse_ano_mes lib s = Some d" "d \<noteq> (9999, 12, 1)"
  shows "interval_mes lib w (Some s) = Some (d, first_of_next_month d) \<and> day_of d = 1"
proof -
  from parse_ano_mes_Some [OF assms(1)] obtain y m
    where d: "d = (y, m, 1)" and b: "1 \<le> y" "y \<le> 9999" "1 \<le> m" "m \<le> 12"
    by blast
  from assms(2) d have ne: "\<not> (y = 9999 \<and> m = 12)" by simp
  have s: "s \<noteq> []" using assms(1) parse_ano_mes_Nil by fastforce
  have "primeiro_dia_of lib w (Some s) = d"
    using s assms(1) by (simp add: primeiro_dia_of_def)
  then show ?thesis
    using proximo_mes_of_Some [OF b ne] d by (simp add: interval_mes_def day_of_def Let_def)
qed

lemma parse_december:
  "py_int lib ''2024'' = Some 2024 \<Longrightarrow> py_int lib ''12'' = Some 12 \<Longrightarrow>
   parse_ano_mes lib ''2024-12'' = Some (2024, 12, 1)"
  by (simp add: parse_ano_mes_def py_date_first)

lemma sales_of_interval_sample:
  "sales_of_interval (2024, 12, 1) (2025, 1, 1) rows_sample
     = [sale 40 0 False ((2024, 12, 31), 86399)]"
  by (simp add: sales_of_interval_def rows_sample_def sale_def)

lemma interval_total_sample: "interval_sales_total (2024, 12, 1) (2025, 1, 1) rows_sample = 40"
  by (simp add: interval_sales_total_def sales_of_interval_sample) (simp add: net_amount_def sale_def)

lemma parse_sample_9999: "parse_ano_mes lib_sample ''9999-12'' = Some (9999, 12, 1)"
  by (simp add: parse_ano_mes_def lib_sample_def py_date_first)

lemma interval_mes_last_month:
  assumes "parse_ano_mes lib s = Some (9999, 12, 1)"
  shows "interval_mes lib w (Some s) = None"
proof -
  have "s \<noteq> []" using assms parse_ano_mes_Nil by fastforce
  then have "primeiro_dia_of lib w (Some s) = (9999, 12, 1)"
    using assms by (simp add: primeiro_dia_of_def)
  then show ?thesis
    by (simp add: interval_mes_def proximo_mes_of_def py_date_first year_of_def month_of_def)
qed

text \<open>
  C5 (amended). For every month selector that parses to a first day other than
  1 December 9999, the statement of the monthly endpoint restricts \<open>created_at\<close>
  to the half-open interval from the first day of the selected month (included) to
  the first day of the next month (excluded); for the selector "2024-12" the
  interval runs from 2024-12-01 to 2025-01-01. On a miss with a successful first
  attempt the total is the sum over the non-cancelled sales whose \<open>created_at\<close> date
  lies in the interval of the statement. For a selector that parses to
  1 December 9999 no statement is built and no query runs: the endpoint answers
  with the cached value, or 0, and the warning "cached".
\<close>

theorem month_interval_half_open:
  "(parse_ano_mes lib s = Some d \<and> d \<noteq> (9999, 12, 1) \<longrightarrow>
      interval_mes lib w (Some s) = Some (d, first_of_next_month d) \<and> day_of d = 1) \<and>
   (py_int lib ''2024'' = Some 2024 \<and> py_int lib ''12'' = Some 12 \<longrightarrow>
      interval_mes lib w (Some ''2024-12'') = Some ((2024, 12, 1), (2025, 1, 1))) \<and>
   (interval_mes lib w ano_mes = Some (lo, hi) \<and>
    cache_fresh (vendas_mes_entry c) (now_check w) = None \<and> execute w 0 = Some rows \<longrightarrow>
      body (vendas_mes lib w ano_mes c)
        = Some \<lparr>period = year_month lo, r_total = interval_sales_total lo hi rows,
                warning = None\<rparr>) \<and>
   (parse_ano_mes lib s = Some (9999, 12, 1) \<longrightarrow>
      interval_mes lib w (Some s) = None \<and>
      vendas_mes lib w (Some s) c =
        \<lparr>body = Some \<lparr>period = year_month (fst (utcnow_handler w)),
                      r_total = (case c_value (vendas_mes_entry c) of None \<Rightarrow> 0 | Some v \<Rightarrow> v),
                      warning = Some ''cached''\<rparr>,
         cache_after = c, n_queries = 0\<rparr>)"
proof (intro conjI impI)
  assume "parse_ano_mes lib s = Some d \<and> d \<noteq> (9999, 12, 1)"
  then show "interval_mes lib w (Some s) = Some (d, first_of_next_month d)" "day_of d = 1"
    using interval_mes_parsed by blast+
next
  assume a: "py_int lib ''2024'' = Some 2024 \<and> py_int lib ''12'' = Some 12"
  then have "parse_ano_mes lib ''2024-12'' = Some (2024, 12, 1)"
    by (simp add: parse_december)
  from interval_mes_parsed [OF this, of w]
  show "interval_mes lib w (Some ''2024-12'') = Some ((2024, 12, 1), (2025, 1, 1))"
    by (simp add: first_of_next_month_def year_of_def month_of_def)
next
  assume "interval_mes lib w ano_mes = Some (lo, hi) \<and>
    cache_fresh (vendas_mes_entry c) (now_check w) = None \<and> execute w 0 = Some rows"
  then show "body (vendas_mes lib w ano_mes c)
        = Some \<lparr>period = year_month lo, r_total = interval_sales_total lo hi rows,
                warning = None\<rparr>"
    by (simp add: vendas_mes_def attempts_mes_first)
next
  assume a: "parse_ano_mes lib s = Some (9999, 12, 1)"
  show i: "interval_mes lib w (Some s) = None"
    by (rule interval_mes_last_month [OF a])
  show "vendas_mes lib w (Some s) c =
        \<lparr>body = Some \<lparr>period = year_month (fst (utcnow_handler w)),
                      r_total = (case c_value (vendas_mes_entry c) of None \<Rightarrow> 0 | Some v \<Rightarrow> v),
                      warning = Some ''cached''\<rparr>,
         cache_after = c, n_queries = 0\<rparr>"
    by (simp add: vendas_mes_def i float_or_zero_def split: option.splits)
qed

theorem month_interval_half_open_witness:
  "parse_ano_mes lib_sample ''2025-03'' = Some (2025, 3, 1) \<and>
   interval_mes lib_sample world_ok (Some ''2025-03'') = Some ((2025, 3, 1), (2025, 4, 1)) \<and>
   py_int lib_sample ''2024'' = Some 2024 \<and> py_int lib_sample ''12'' = Some 12 \<and>
   interval_mes lib_sample world_ok (Some ''2024-12'') = Some ((2024, 12, 1), (2025, 1, 1)) \<and>
   cache_fresh (vendas_mes_entry metrics_cache_init) (now_check world_ok) = None \<and>
   execute world_ok 0 = Some rows_sample \<and>
   body (vendas_mes lib_sample world_ok (Some ''2024-12'') metrics_cache_init)
     = Some \<lparr>period = (2024, 12), r_total = 40, warning = None\<rparr> \<and>
   parse_ano_mes lib_sample ''9999-12'' = Some (9999, 12, 1) \<and>
   interval_mes lib_sample world_down (Some ''9999-12'') = None \<and>
   n_queries (vendas_mes lib_sample world_down (Some ''9999-12'') cache_stale) = 0 \<and>
   map_option r_total (body (vendas_mes lib_sample world_down (Some ''9999-12'') cache_stale))
     = Some 1025"
proof -
  have h1: "parse_ano_mes lib_sample ''2025-03'' = Some (2025, 3, 1) \<and>
      (2025, 3, 1) \<noteq> (9999 :: int, 12 :: int, 1 :: int)"
    by (simp add: parse_sample_march)
  have h2: "py_int lib_sample ''2024'' = Some 2024 \<and> py_int lib_sample ''12'' = Some 12"
    by (simp add: lib_sample_def)
  note r1 = month_interval_half_open [THEN conjunct1, rule_format, OF h1, of world_ok]
  note r2 = month_interval_half_open [THEN conjunct2, THEN conjunct1, rule_format, OF h2, of world_ok]
  have m: "cache_fresh (vendas_mes_entry metrics_cache_init) (now_check world_ok) = None"
    by (simp add: cache_fresh_def metrics_cache_init_def)
  have h3: "interval_mes lib_sample world_ok (Some ''2024-12'') = Some ((2024, 12, 1), (2025, 1, 1)) \<and>
      cache_fresh (vendas_mes_entry metrics_cache_init) (now_check world_ok) = None \<and>
      execute world_ok 0 = Some rows_sample"
    using r2 m by (simp add: world_ok_sel)
  note r3 = month_interval_half_open [THEN conjunct2, THEN conjunct2, THEN conjunct1,
      rule_format, OF h3]
  note r4 = month_interval_half_open [THEN conjunct2, THEN conjunct2, THEN conjunct2,
      rule_format, OF parse_sample_9999, of world_down cache_stale]
  show ?thesis
    using h1 h2 h3 r1 r2 r3 r4 parse_sample_9999
    by (simp add: first_of_next_month_def year_of_def month_of_def year_month_def
        interval_total_sample cache_stale_sel)
qed

text \<open>
  For the selector "9999-12" the first day parses, but the first day of the next
  month would be in year 10000, which \<^verbatim>\<open>date\<close> refuses: no statement is built, no
  query runs, and the handler of the endpoint answers with the cached value (here
  0) and the warning.
\<close>

theorem month_interval_counterexample:
  "parse_ano_mes lib_sample ''9999-12'' = Some (9999, 12, 1) \<and>
   interval_mes lib_sample world_ok (Some ''9999-12'') = None \<and>
   vendas_mes lib_sample world_ok (Some ''9999-12'') metrics_cache_init =
     \<lparr>body = Some \<lparr>period = (2025, 3), r_total = 0, warning = Some ''cached''\<rparr>,
      cache_after = metrics_cache_init, n_queries = 0\<rparr>"
proof -
  have i: "interval_mes lib_sample world_ok (Some ''9999-12'') = None"
    by (simp add: interval_mes_def primeiro_dia_of_def parse_sample_9999 proximo_mes_of_def
        year_of_def month_of_def py_date_first)
  have v: "c_value (vendas_mes_entry metrics_cache_init) = None"
    by (simp add: metrics_cache_init_def)
  show ?thesis
    by (simp add: parse_sample_9999 i vendas_mes_def v float_or_zero_None world_ok_sel
        year_month_def year_of_def month_of_def)
qed

section \<open>Missing and malformed periods\<close>









lemma sales_of_day_sample_11:
  "sales_of_day (2025, 3, 11) rows_sample = [sale 80 5 False ((2025, 3, 11), 0)]"
  by (simp add: sales_of_day_def rows_sample_def sale_def)

lemma daily_total_sample_11: "daily_sales_total (2025, 3, 11) rows_sample = 75"
  by (simp add: daily_sales_total_def sales_of_day_sample_11) (simp add: net_amount_def sale_def)

lemma sales_of_interval_march:
  "sales_of_interval (2025, 3, 1) (2025, 4, 1) rows_sample
     = [sale 1000 50 False ((2025, 3, 10), 3600), sale 80 5 False ((2025, 3, 11), 0)]"
  by (simp add: sales_of_interval_def rows_sample_def sale_def)

lemma interval_total_march: "interval_sales_total (2025, 3, 1) (2025, 4, 1) rows_sample = 1025"
  by (simp add: interval_sales_total_def sales_of_interval_march) (simp add: net_amount_def sale_def)





section \<open>The cache key\<close>

lemma world_later_sel:
  "today world_later = (2025, 3, 11)" "utcnow world_later = ((2025, 3, 11), 100)"
  "now_check world_later = 1010" "now_store world_later = 1011"
  "execute world_later i = Some rows_sample"
  by (simp_all add: world_later_def world_ok_def)

lemma vendas_dia_first:
  "cache_fresh (vendas_dia_entry c) (now_check w) = None \<Longrightarrow> execute w 0 = Some rows \<Longrightarrow>
   vendas_dia lib w data c =
     \<lparr>body = Some \<lparr>period = alvo_of lib w data,
                   r_total = daily_sales_total (alvo_of lib w data) rows, warning = None\<rparr>,
      cache_after = c\<lparr>vendas_dia_entry :=
                        \<lparr>c_value = Some (daily_sales_total (alvo_of lib w data) rows),
                         c_ts = now_store w\<rparr>\<rparr>,
      n_queries = 1\<rparr>"
  by (simp add: vendas_dia_def dia_for_miss attempts_dia_first)

lemma vendas_mes_first:
  "interval_mes lib w ano_mes = Some (lo, hi) \<Longrightarrow>
   cache_fresh (vendas_mes_entry c) (now_check w) = None \<Longrightarrow> execute w 0 = Some rows \<Longrightarrow>
   vendas_mes lib w ano_mes c =
     \<lparr>body = Some \<lparr>period = year_month lo, r_total = interval_sales_total lo hi rows,
                   warning = None\<rparr>,
      cache_after = c\<lparr>vendas_mes_entry := \<lparr>c_value = Some (interval_sales_total lo hi rows),
                                            c_ts = now_store w\<rparr>\<rparr>,
      n_queries = 1\<rparr>"
  by (simp add: vendas_mes_def attempts_mes_first)

lemma vendas_dia_hit:
  "c_value (vendas_dia_entry c) = Some v \<Longrightarrow> now_check w - c_ts (vendas_dia_entry c) < 15 \<Longrightarrow>
   vendas_dia lib w data c =
     \<lparr>body = Some \<lparr>period = alvo_of lib w data, r_total = v, warning = None\<rparr>,
      cache_after = c, n_queries = 0\<rparr>"
  by (simp add: vendas_dia_def dia_for_def cache_fresh_def cache_ttl_seconds_def)

lemma vendas_mes_hit:
  "interval_mes lib w ano_mes = Some (lo, hi) \<Longrightarrow>
   c_value (vendas_mes_entry c) = Some v \<Longrightarrow> now_check w - c_ts (vendas_mes_entry c) < 15 \<Longrightarrow>
   vendas_mes lib w ano_mes c =
     \<lparr>body = Some \<lparr>period = year_month lo, r_total = v, warning = None\<rparr>,
      cache_after = c, n_queries = 0\<rparr>"
  by (simp add: vendas_mes_def cache_fresh_def cache_ttl_seconds_def)

lemma alvo_sample_11: "alvo_of lib_sample w (Some ''2025-03-11'') = (2025, 3, 11)"
  by (simp add: alvo_of_def lib_sample_def)

lemma interval_sample_dec:
  "interval_mes lib_sample w (Some ''2024-12'') = Some ((2024, 12, 1), (2025, 1, 1))"
  by (simp add: interval_mes_def primeiro_dia_of_def parse_december lib_sample_def
      proximo_mes_of_def py_date_first year_of_def month_of_def)

text \<open>
  C3. The cache entries are keyed by the metric alone. After a daily request that
  computed and stored the total of its day, a daily request for any day (in
  particular another day) that arrives while the entry is younger than the TTL
  returns that stored total, computed for the day of the first request, under the
  day it asked for itself, and runs no query; the requested day takes no part in
  the lookup. The same holds for two monthly requests, whenever their statements
  can be built.
\<close>

theorem cache_keyed_by_metric_only:
  "(cache_fresh (vendas_dia_entry c) (now_check w1) = None \<and> execute w1 0 = Some rows \<and>
    now_check w2 - now_store w1 < 15 \<longrightarrow>
      vendas_dia lib w2 data2 (cache_after (vendas_dia lib w1 data1 c)) =
        \<lparr>body = Some \<lparr>period = alvo_of lib w2 data2,
                      r_total = daily_sales_total (alvo_of lib w1 data1) rows,
                      warning = None\<rparr>,
         cache_after = cache_after (vendas_dia lib w1 data1 c), n_queries = 0\<rparr>) \<and>
   (interval_mes lib w1 mes1 = Some (lo1, hi1) \<and> interval_mes lib w2 mes2 = Some (lo2, hi2) \<and>
    cache_fresh (vendas_mes_entry c) (now_check w1) = None \<and> execute w1 0 = Some rows \<and>
    now_check w2 - now_store w1 < 15 \<longrightarrow>
      vendas_mes lib w2 mes2 (cache_after (vendas_mes lib w1 mes1 c)) =
        \<lparr>body = Some \<lparr>period = year_month lo2,
                      r_total = interval_sales_total lo1 hi1 rows,
                      warning = None\<rparr>,
         cache_after = cache_after (vendas_mes lib w1 mes1 c), n_queries = 0\<rparr>)"
proof (intro conjI impI)
  assume a: "cache_fresh (vendas_dia_entry c) (now_check w1) = None \<and> execute w1 0 = Some rows \<and>
    now_check w2 - now_store w1 < 15"
  then have f: "vendas_dia lib w1 data1 c =
     \<lparr>body = Some \<lparr>period = alvo_of lib w1 data1,
                   r_total = daily_sales_total (alvo_of lib w1 data1) rows, warning = None\<rparr>,
      cache_after = c\<lparr>vendas_dia_entry :=
                        \<lparr>c_value = Some (daily_sales_total (alvo_of lib w1 data1) rows),
                         c_ts = now_store w1\<rparr>\<rparr>,
      n_queries = 1\<rparr>"
    by (simp add: vendas_dia_first)
  show "vendas_dia lib w2 data2 (cache_after (vendas_dia lib w1 data1 c)) =
        \<lparr>body = Some \<lparr>period = alvo_of lib w2 data2,
                      r_total = daily_sales_total (alvo_of lib w1 data1) rows,
                      warning = None\<rparr>,
         cache_after = cache_after (vendas_dia lib w1 data1 c), n_queries = 0\<rparr>"
    unfolding f using a by (simp add: vendas_dia_hit)
next
  assume a: "interval_mes lib w1 mes1 = Some (lo1, hi1) \<and>
    interval_mes lib w2 mes2 = Some (lo2, hi2) \<and>
    cache_fresh (vendas_mes_entry c) (now_check w1) = None \<and> execute w1 0 = Some rows \<and>
    now_check w2 - now_store w1 < 15"
  then have f: "vendas_mes lib w1 mes1 c =
     \<lparr>body = Some \<lparr>period = year_month lo1, r_total = interval_sales_total lo1 hi1 rows,
                   warning = None\<rparr>,
      cache_after = c\<lparr>vendas_mes_entry := \<lparr>c_value = Some (interval_sales_total lo1 hi1 rows),
                                            c_ts = now_store w1\<rparr>\<rparr>,
      n_queries = 1\<rparr>"
    by (simp add: vendas_mes_first)
  show "vendas_mes lib w2 mes2 (cache_after (vendas_mes lib w1 mes1 c)) =
        \<lparr>body = Some \<lparr>period = year_month lo2,
                      r_total = interval_sales_total lo1 hi1 rows,
                      warning = None\<rparr>,
         cache_after = cache_after (vendas_mes lib w1 mes1 c), n_queries = 0\<rparr>"
    unfolding f using a by (simp add: vendas_mes_hit [where lo = lo2 and hi = hi2])
qed

theorem cache_keyed_by_metric_only_witness:
  "cache_fresh (vendas_dia_entry metrics_cache_init) (now_check world_ok) = None \<and>
   execute world_ok 0 = Some rows_sample \<and>
   now_check world_later - now_store world_ok < 15 \<and>
   alvo_of lib_sample world_ok (Some ''2025-03-10'') = (2025, 3, 10) \<and>
   alvo_of lib_sample world_later (Some ''2025-03-11'') = (2025, 3, 11) \<and>
   daily_sales_total (2025, 3, 11) rows_sample = 75 \<and>
   body (vendas_dia lib_sample world_later (Some ''2025-03-11'')
          (cache_after (vendas_dia lib_sample world_ok (Some ''2025-03-10'') metrics_cache_init)))
     = Some \<lparr>period = (2025, 3, 11), r_total = 950, warning = None\<rparr> \<and>
   interval_mes lib_sample world_ok (Some ''2024-12'') = Some ((2024, 12, 1), (2025, 1, 1)) \<and>
   interval_mes lib_sample world_later (Some ''2025-03'') = Some ((2025, 3, 1), (2025, 4, 1)) \<and>
   cache_fresh (vendas_mes_entry metrics_cache_init) (now_check world_ok) = None \<and>
   interval_sales_total (2025, 3, 1) (2025, 4, 1) rows_sample = 1025 \<and>
   body (vendas_mes lib_sample world_later (Some ''2025-03'')
          (cache_after (vendas_mes lib_sample world_ok (Some ''2024-12'') metrics_cache_init)))
     = Some \<lparr>period = (2025, 3), r_total = 40, warning = None\<rparr>"
proof -
  have h1: "cache_fresh (vendas_dia_entry metrics_cache_init) (now_check world_ok) = None \<and>
      execute world_ok 0 = Some rows_sample \<and> now_check world_later - now_store world_ok < 15"
    by (simp add: cache_fresh_def metrics_cache_init_def world_ok_sel world_later_sel)
  have h2: "interval_mes lib_sample world_ok (Some ''2024-12'') = Some ((2024, 12, 1), (2025, 1, 1)) \<and>
      interval_mes lib_sample world_later (Some ''2025-03'') = Some ((2025, 3, 1), (2025, 4, 1)) \<and>
      cache_fresh (vendas_mes_entry metrics_cache_init) (now_check world_ok) = None \<and>
      execute world_ok 0 = Some rows_sample \<and> now_check world_later - now_store world_ok < 15"
    by (simp add: cache_fresh_def metrics_cache_init_def world_ok_sel world_later_sel
        interval_sample interval_sample_dec)
  note r1 = cache_keyed_by_metric_only [THEN conjunct1, rule_format, OF h1,
      of lib_sample "Some ''2025-03-11''" "Some ''2025-03-10''"]
  note r2 = cache_keyed_by_metric_only [THEN conjunct2, rule_format, OF h2]
  show ?thesis
    using h1 h2 r1 r2
    by (simp add: alvo_sample alvo_sample_11 daily_total_sample_10 daily_total_sample_11
        interval_total_sample interval_total_march year_month_def year_of_def month_of_def)
qed

section \<open>The value of a cache entry\<close>

lemma attempts_dia_cache:
  "attempts_dia w alvo [0..<2] c 0 = out \<Longrightarrow>
   vendas_mes_entry (cache_after out) = vendas_mes_entry c \<and>
   (vendas_dia_entry (cache_after out) = vendas_dia_entry c \<and>
      execute w 0 = None \<and> execute w 1 = None \<or>
    (\<exists>t. vendas_dia_entry (cache_after out) = \<lparr>c_value = Some t, c_ts = now_store w\<rparr>) \<and>
      (execute w 0 \<noteq> None \<or> execute w 1 \<noteq> None))"
  by (auto simp: range_two Let_def split: option.splits)

lemma attempts_mes_cache:
  "attempts_mes w lo hi [0..<2] c 0 = out \<Longrightarrow>
   vendas_dia_entry (cache_after out) = vendas_dia_entry c \<and>
   (vendas_mes_entry (cache_after out) = vendas_mes_entry c \<and>
      execute w 0 = None \<and> execute w 1 = None \<or>
    (\<exists>t. vendas_mes_entry (cache_after out) = \<lparr>c_value = Some t, c_ts = now_store w\<rparr>) \<and>
      (execute w 0 \<noteq> None \<or> execute w 1 \<noteq> None))"
  by (auto simp: range_two Let_def split: option.splits)

lemma cache_fresh_Some: "cache_fresh e now = Some v \<Longrightarrow> c_value e = Some v"
  by (simp add: cache_fresh_def split: option.splits if_splits)

lemma serve_dia_entry:
  "c_value (vendas_dia_entry (serve lib r c)) = None \<longleftrightarrow>
     c_value (vendas_dia_entry c) = None \<and> \<not> dia_answered r"
proof (cases r)
  case (Dia w data)
  show ?thesis
  proof (cases "cache_fresh (vendas_dia_entry c) (now_check w)")
    case None
    from attempts_dia_cache [OF refl, of w "alvo_of lib w data" c]
    show ?thesis
      using None Dia
      by (auto simp: vendas_dia_def dia_for_def)
  next
    case (Some v)
    then show ?thesis using Dia cache_fresh_Some [OF Some]
      by (simp add: vendas_dia_def dia_for_def)
  qed
next
  case (Mes w ano_mes)
  from attempts_mes_cache [OF refl, of w _ _ c]
  show ?thesis
    using Mes
    by (auto simp: vendas_mes_def split: option.splits prod.splits)
qed

lemma serve_mes_entry:
  "c_value (vendas_mes_entry (serve lib r c)) = None \<longleftrightarrow>
     c_value (vendas_mes_entry c) = None \<and> \<not> mes_answered lib r"
proof (cases r)
  case (Dia w data)
  show ?thesis
  proof (cases "cache_fresh (vendas_dia_entry c) (now_check w)")
    case None
    from attempts_dia_cache [OF refl, of w "alvo_of lib w data" c]
    show ?thesis
      using None Dia by (auto simp: vendas_dia_def dia_for_def)
  next
    case (Some v)
    then show ?thesis using Dia by (simp add: vendas_dia_def dia_for_def)
  qed
next
  case (Mes w ano_mes)
  show ?thesis
  proof (cases "interval_mes lib w ano_mes")
    case None
    then show ?thesis using Mes by (simp add: vendas_mes_def)
  next
    case (Some iv)
    obtain lo hi where iv: "iv = (lo, hi)" by (cases iv)
    show ?thesis
    proof (cases "cache_fresh (vendas_mes_entry c) (now_check w)")
      case None
      from attempts_mes_cache [OF refl, of w lo hi c]
      show ?thesis
        using None Mes Some iv by (auto simp: vendas_mes_def)
    next
      case (Some v)
      then show ?thesis
        using Mes \<open>interval_mes lib w ano_mes = Some iv\<close> iv cache_fresh_Some [OF Some]
        by (simp add: vendas_mes_def)
    qed
  qed
qed

lemma run_dia_entry:
  "c_value (vendas_dia_entry (run lib rs c)) = None \<longleftrightarrow>
     c_value (vendas_dia_entry c) = None \<and> \<not> list_ex dia_answered rs"
  unfolding run_def
  by (induction rs arbitrary: c) (auto simp: serve_dia_entry)

lemma run_mes_entry:
  "c_value (vendas_mes_entry (run lib rs c)) = None \<longleftrightarrow>
     c_value (vendas_mes_entry c) = None \<and> \<not> list_ex (mes_answered lib) rs"
  unfolding run_def
  by (induction rs arbitrary: c) (auto simp: serve_mes_entry)

lemma vendas_dia_cache:
  "vendas_mes_entry (cache_after (vendas_dia lib w data c)) = vendas_mes_entry c \<and>
   (vendas_dia_entry (cache_after (vendas_dia lib w data c)) = vendas_dia_entry c \<or>
    (\<exists>t. vendas_dia_entry (cache_after (vendas_dia lib w data c))
           = \<lparr>c_value = Some t, c_ts = now_store w\<rparr>))"
proof (cases "cache_fresh (vendas_dia_entry c) (now_check w)")
  case None
  from attempts_dia_cache [OF refl, of w "alvo_of lib w data" c]
  show ?thesis
    using None by (auto simp: vendas_dia_def dia_for_def)
next
  case (Some v)
  then show ?thesis by (simp add: vendas_dia_def dia_for_def)
qed

lemma vendas_mes_cache:
  "vendas_dia_entry (cache_after (vendas_mes lib w ano_mes c)) = vendas_dia_entry c \<and>
   (vendas_mes_entry (cache_after (vendas_mes lib w ano_mes c)) = vendas_mes_entry c \<or>
    (\<exists>t. vendas_mes_entry (cache_after (vendas_mes lib w ano_mes c))
           = \<lparr>c_value = Some t, c_ts = now_store w\<rparr>))"
proof (cases "interval_mes lib w ano_mes")
  case None
  then show ?thesis by (simp add: vendas_mes_def)
next
  case (Some iv)
  obtain lo hi where iv: "iv = (lo, hi)" by (cases iv)
  show ?thesis
  proof (cases "cache_fresh (vendas_mes_entry c) (now_check w)")
    case None
    from attempts_mes_cache [OF refl, of w lo hi c]
    show ?thesis
      using None \<open>interval_mes lib w ano_mes = Some iv\<close> iv by (auto simp: vendas_mes_def)
  next
    case (Some v)
    then show ?thesis
      using \<open>interval_mes lib w ano_mes = Some iv\<close> iv by (simp add: vendas_mes_def)
  qed
qed

lemma serve_dia_write:
  "vendas_dia_entry (serve lib r c) \<noteq> vendas_dia_entry c \<Longrightarrow>
   c_value (vendas_dia_entry (serve lib r c)) \<noteq> None"
proof (cases r)
  case (Dia w data)
  assume "vendas_dia_entry (serve lib r c) \<noteq> vendas_dia_entry c"
  with vendas_dia_cache [of lib w data c] Dia show ?thesis by auto
next
  case (Mes w ano_mes)
  assume "vendas_dia_entry (serve lib r c) \<noteq> vendas_dia_entry c"
  with vendas_mes_cache [of lib w ano_mes c] Mes show ?thesis by auto
qed

lemma serve_mes_write:
  "vendas_mes_entry (serve lib r c) \<noteq> vendas_mes_entry c \<Longrightarrow>
   c_value (vendas_mes_entry (serve lib r c)) \<noteq> None"
proof (cases r)
  case (Dia w data)
  assume "vendas_mes_entry (serve lib r c) \<noteq> vendas_mes_entry c"
  with vendas_dia_cache [of lib w data c] Dia show ?thesis by auto
next
  case (Mes w ano_mes)
  assume "vendas_mes_entry (serve lib r c) \<noteq> vendas_mes_entry c"
  with vendas_mes_cache [of lib w ano_mes c] Mes show ?thesis by auto
qed

lemma answered_sample:
  "\<not> list_ex dia_answered [Dia world_down None]"
  "list_ex dia_answered
     [Dia world_down None, Dia world_ok (Some ''2025-03-10''), Dia world_down None]"
  by (simp_all add: world_down_sel world_ok_sel)

lemma serve_sample_changes:
  "vendas_dia_entry (serve lib_sample (Dia world_ok (Some ''2025-03-10'')) metrics_cache_init)
     \<noteq> vendas_dia_entry metrics_cache_init"
proof -
  have m: "cache_fresh (vendas_dia_entry metrics_cache_init) (now_check world_ok) = None"
    by (simp add: cache_fresh_def metrics_cache_init_def)
  show ?thesis
    by (simp add: vendas_dia_first [OF m world_ok_sel(5)]) (simp add: metrics_cache_init_def)
qed

text \<open>
  C7. Both entries start with no value. After any sequence of requests served from
  a cache, the value of the daily entry is absent exactly when it was absent
  before and no daily request of the sequence had its computation succeed; so it
  is absent only before the first successful computation, and a value once set is
  never cleared by a later request, successful or failed. The same holds for the
  monthly entry. Whenever a request changes an entry, the entry then holds a
  number.
\<close>

theorem cache_value_never_cleared:
  "c_value (vendas_dia_entry metrics_cache_init) = None \<and>
   c_value (vendas_mes_entry metrics_cache_init) = None \<and>
   (c_value (vendas_dia_entry (run lib rs c)) = None \<longleftrightarrow>
      c_value (vendas_dia_entry c) = None \<and> \<not> list_ex dia_answered rs) \<and>
   (c_value (vendas_mes_entry (run lib rs c)) = None \<longleftrightarrow>
      c_value (vendas_mes_entry c) = None \<and> \<not> list_ex (mes_answered lib) rs) \<and>
   (vendas_dia_entry (serve lib r c) \<noteq> vendas_dia_entry c \<longrightarrow>
      c_value (vendas_dia_entry (serve lib r c)) \<noteq> None) \<and>
   (vendas_mes_entry (serve lib r c) \<noteq> vendas_mes_entry c \<longrightarrow>
      c_value (vendas_mes_entry (serve lib r c)) \<noteq> None)"
  using run_dia_entry [of lib rs c] run_mes_entry [of lib rs c]
    serve_dia_write [of lib r c] serve_mes_write [of lib r c]
  by (simp add: metrics_cache_init_def)

theorem cache_value_never_cleared_witness:
  "c_value (vendas_dia_entry metrics_cache_init) = None \<and>
   \<not> list_ex dia_answered [Dia world_down None] \<and>
   c_value (vendas_dia_entry (run lib_sample [Dia world_down None] metrics_cache_init)) = None \<and>
   list_ex dia_answered
     [Dia world_down None, Dia world_ok (Some ''2025-03-10''), Dia world_down None] \<and>
   c_value (vendas_dia_entry
     (run lib_sample
        [Dia world_down None, Dia world_ok (Some ''2025-03-10''), Dia world_down None]
        metrics_cache_init)) \<noteq> None \<and>
   vendas_dia_entry (serve lib_sample (Dia world_ok (Some ''2025-03-10'')) metrics_cache_init)
     \<noteq> vendas_dia_entry metrics_cache_init \<and>
   c_value (vendas_dia_entry
     (serve lib_sample (Dia world_ok (Some ''2025-03-10'')) metrics_cache_init)) \<noteq> None"
proof -
  note t = cache_value_never_cleared [where lib = lib_sample and c = metrics_cache_init]
  note i = t [THEN conjunct1]
  note a = t [where rs = "[Dia world_down None]", THEN conjunct2, THEN conjunct2, THEN conjunct1]
  note b = t [where rs = "[Dia world_down None, Dia world_ok (Some ''2025-03-10''),
        Dia world_down None]", THEN conjunct2, THEN conjunct2, THEN conjunct1]
  note w = t [where r = "Dia world_ok (Some ''2025-03-10'')", THEN conjunct2, THEN conjunct2,
      THEN conjunct2, THEN conjunct2, THEN conjunct1, rule_format, OF serve_sample_changes]
  show ?thesis
    using i a b w answered_sample serve_sample_changes by simp
qed

section \<open>The signature of a sale\<close>

lemma sort_mset_eq:
  fixes xs ys :: "'a::linorder list"
  assumes "mset xs = mset ys"
  shows "sort xs = sort ys"
  by (rule properties_for_sort) (simp_all add: assms)

lemma or_empty_Some: "or_empty (Some xs) = xs"
  by (simp add: or_empty_def)

lemma round6_samples:
  "round6 0 = 0" "round6 31 = 31" "round6 (21 / 2) = 21 / 2" "round6 21 = 21"
  "round6 (1 / 4) = 1 / 4"
  "round6 40 = 40" "round6 10 = 10"
  by (simp_all add: round6_def round_half_even_def Let_def)

lemma key_item_samples:
  "key_item_of item_a = (''p-1'', 2, 0, 10.5, 21)"
  "key_item_of item_b = (''p-2'', 1, 0.25, 40, 10)"
  by (simp_all add: key_item_of_def item_a_def item_b_def or_empty_def or_zero_def
      or_zero_int_def round6_samples)

lemma signature_sample:
  "build_signature (venda_x\<lparr>vd_itens := Some [item_b, item_a]\<rparr>)
     = (31, ''Dinheiro'', [(''p-1'', 2, 0, 10.5, 21), (''p-2'', 1, 0.25, 40, 10)])"
  by (simp add: build_signature_def or_empty_def or_zero_def venda_x_def key_item_samples
      round6_samples)

text \<open>
  C8. The signature of a sale does not depend on the order of its line items: two
  sales that differ only in the order of their items (the same items, each as many
  times) have equal signatures.
\<close>

theorem signature_order_independent:
  "mset xs = mset ys \<longrightarrow>
     build_signature (v\<lparr>vd_itens := Some xs\<rparr>) = build_signature (v\<lparr>vd_itens := Some ys\<rparr>)"
proof
  assume "mset xs = mset ys"
  then have "mset (map key_item_of xs) = mset (map key_item_of ys)"
    by (metis mset_map)
  then have "sort (map key_item_of xs) = sort (map key_item_of ys)"
    by (rule sort_mset_eq)
  then show "build_signature (v\<lparr>vd_itens := Some xs\<rparr>) = build_signature (v\<lparr>vd_itens := Some ys\<rparr>)"
    by (simp add: build_signature_def or_empty_Some)
qed

theorem signature_order_independent_witness:
  "mset [item_a, item_b] = mset [item_b, item_a] \<and>
   build_signature (venda_x\<lparr>vd_itens := Some [item_a, item_b]\<rparr>)
     = (31, ''Dinheiro'', [(''p-1'', 2, 0, 10.5, 21), (''p-2'', 1, 0.25, 40, 10)])"
proof -
  have h: "mset [item_a, item_b] = mset [item_b, item_a]"
    by (simp add: add.commute)
  from signature_order_independent [rule_format, OF h, of venda_x] signature_sample h
  show ?thesis by simp
qed

section \<open>The sale that is kept\<close>





























section \<open>Validation errors of the expense endpoints\<close>

























end
